theory Spec2Isabelle
  imports Main
begin

section \<open>Sidecar injection for Fargate tasks: \<open>addDatadogToFargateTask\<close>\<close>

text \<open>
  A shallow embedding of \<open>addDatadogToFargateTask\<close> and \<open>formatTags\<close>. An
  optional property \<open>x?: T\<close> is a field of type \<open>T option\<close>, \<open>None\<close> being
  \<open>undefined\<close>; \<open>a?.b\<close> is \<open>Option.bind\<close>; \<open>a ?? d\<close> is a
  \<open>case\<close> on the option. Numbers (ports, CPU units, MiB) are integers, in the
  range where a JavaScript number is exact and \<open>String\<close> prints plain decimal
  digits. A \<open>Record<string, string>\<close> is the list of its entries in the order of
  \<open>Object.entries\<close>.
\<close>

subsection \<open>JavaScript values\<close>

text \<open>Truthiness of a \<open>boolean | undefined\<close>, a \<open>number | undefined\<close> and a
  \<open>string | undefined\<close>. An object is always truthy, so a test on an optional object
  is a \<open>case\<close> on the option.\<close>

definition truthy_bool :: "bool option \<Rightarrow> bool" where
  "truthy_bool b = (b = Some True)"

definition truthy_number :: "int option \<Rightarrow> bool" where
  "truthy_number n = (case n of None \<Rightarrow> False | Some k \<Rightarrow> k \<noteq> 0)"

definition truthy_string :: "string option \<Rightarrow> bool" where
  "truthy_string s = (case s of None \<Rightarrow> False | Some t \<Rightarrow> t \<noteq> [])"

text \<open>\<open>String(n)\<close> on an integer: its decimal digits, with a minus sign below zero.\<close>

definition digit :: "nat \<Rightarrow> char" where
  "digit d = ''0123456789'' ! d"

fun String_nat :: "nat \<Rightarrow> string" where
  "String_nat n = (if n < 10 then [digit n] else String_nat (n div 10) @ [digit (n mod 10)])"

declare String_nat.simps [simp del]

definition String_number :: "int \<Rightarrow> string" where
  "String_number i = (if i < 0 then CHR ''-'' # String_nat (nat (- i)) else String_nat (nat i))"

text \<open>\<open>Array.prototype.join\<close> on an array of strings.\<close>

fun join :: "string \<Rightarrow> string list \<Rightarrow> string" where
  "join sep [] = []"
| "join sep [x] = x"
| "join sep (x # y # ys) = x @ sep @ join sep (y # ys)"

subsection \<open>\<open>formatTags\<close>\<close>

definition formatTags :: "(string \<times> string) list \<Rightarrow> string \<Rightarrow> string" where
  "formatTags tags sep = join sep (map (\<lambda>(key, val). key @ '':'' @ val) tags)"

subsection \<open>Configuration (\<open>AddDatadogToFargateTaskProps\<close>)\<close>

text \<open>\<open>ecs.ContainerImage\<close> and \<open>ecs.Secret\<close> are opaque to the injector: an image
  is either built by \<open>fromRegistry\<close> from a reference or some other image, a secret is
  an identifier.\<close>

datatype ContainerImage = fromRegistry string | otherImage nat

datatype Secret = Secret nat

record DatadogFargateApmApplicationEnvVarsProps =
  apm_doNotSet :: "bool option"
  apmHostEnvVarName :: "string option"
  apmPortEnvVarName :: "string option"
  apmTraceEnabledEnvVarName :: "string option"

record DatadogFargateApmProps =
  apm_enabled :: "bool option"
  apm_port :: "int option"
  apm_applicationEnvVars :: "DatadogFargateApmApplicationEnvVarsProps option"

record DatadogFargateStatsdApplicationEnvVarsProps =
  statsd_doNotSet :: "bool option"
  statsdHostEnvVarName :: "string option"
  statsdPortEnvVarName :: "string option"

record DatadogFargateStatsdProps =
  statsd_enabled :: "bool option"
  statsd_port :: "int option"
  statsd_applicationEnvVars :: "DatadogFargateStatsdApplicationEnvVarsProps option"

record DatadogFargateAgentProps =
  agent_enabled :: "bool option"
  agent_image :: "ContainerImage option"
  agent_imageTag :: "string option"
  agent_memoryLimitMiB :: "int option"
  agent_cpu :: "int option"
  logToCloudWatch :: "bool option"
  agent_tags :: "(string \<times> string) list option"
  apm :: "DatadogFargateApmProps option"
  statsd :: "DatadogFargateStatsdProps option"

record DatadogFargateFirelensLoggingProps =
  fl_enabled :: "bool option"
  fl_service :: "string option"
  fl_source :: "string option"
  fl_tags :: "(string \<times> string) list option"
  fl_memoryLimitMiB :: "int option"
  fl_cpu :: "int option"
  fl_image :: "ContainerImage option"
  fl_imageTag :: "string option"

record AddDatadogToFargateTaskProps =
  datadogApiKeySecret :: Secret
  datadogSite :: "string option"
  agent :: "DatadogFargateAgentProps option"
  fireLensLogging :: "DatadogFargateFirelensLoggingProps option"

text \<open>The optional chains the function reads: \<open>props.agent?.apm\<close>,
  \<open>props.agent?.apm?.applicationEnvVars\<close>, and the same under \<open>statsd\<close>.\<close>

definition agent_apm :: "AddDatadogToFargateTaskProps \<Rightarrow> DatadogFargateApmProps option" where
  "agent_apm props = Option.bind (agent props) apm"

definition agent_apm_vars ::
  "AddDatadogToFargateTaskProps \<Rightarrow> DatadogFargateApmApplicationEnvVarsProps option" where
  "agent_apm_vars props = Option.bind (agent_apm props) apm_applicationEnvVars"

definition agent_statsd :: "AddDatadogToFargateTaskProps \<Rightarrow> DatadogFargateStatsdProps option" where
  "agent_statsd props = Option.bind (agent props) statsd"

definition agent_statsd_vars ::
  "AddDatadogToFargateTaskProps \<Rightarrow> DatadogFargateStatsdApplicationEnvVarsProps option" where
  "agent_statsd_vars props = Option.bind (agent_statsd props) statsd_applicationEnvVars"

text \<open>\<open>x ?? d\<close> on strings, and \<open>String(port ?? d)\<close>.\<close>

definition orElse :: "'a option \<Rightarrow> 'a \<Rightarrow> 'a" where
  "orElse x d = (case x of None \<Rightarrow> d | Some v \<Rightarrow> v)"

definition portString :: "int option \<Rightarrow> string \<Rightarrow> string" where
  "portString p d = (case p of None \<Rightarrow> d | Some n \<Rightarrow> String_number n)"

subsection \<open>The task collaborator (\<open>aws-cdk-lib/aws-ecs\<close>)\<close>

text \<open>A log driver, and the log configuration of a container: the driver that was
  bound to it.\<close>

datatype LogDriver =
  awsLogs string
| firelens "string \<rightharpoonup> string" "string \<rightharpoonup> Secret"

datatype FirelensLogRouterType = FLUENTBIT | FLUENTD

record FirelensConfig =
  firelensType :: FirelensLogRouterType
  enableECSLogMetadata :: "bool option"

text \<open>The object literal passed to \<open>addContainer\<close> and \<open>addFirelensLogRouter\<close>.
  \<open>opt_cpu\<close> records whether the literal has a \<open>cpu\<close> key: \<open>None\<close> is no key,
  \<open>Some v\<close> is the key with value \<open>v\<close> (\<open>Some None\<close> is \<open>cpu: undefined\<close>).\<close>

record ContainerDefinitionOptions =
  opt_image :: ContainerImage
  opt_memoryLimitMiB :: "int option"
  opt_cpu :: "int option option"
  opt_logging :: "LogDriver option"
  opt_environment :: "string \<rightharpoonup> string"
  opt_secrets :: "string \<rightharpoonup> Secret"
  opt_firelensConfig :: "FirelensConfig option"

record ContainerDefinition =
  containerName :: string
  c_image :: ContainerImage
  memoryLimitMiB :: "int option"
  cpu :: "int option"
  environment :: "string \<rightharpoonup> string"
  secrets :: "string \<rightharpoonup> Secret"
  logDriverConfig :: "LogDriver option"
  firelensConfig :: "FirelensConfig option"

record TaskDefinition =
  containers :: "ContainerDefinition list"

datatype error = DuplicateContainerName string | FirelensRouterAlreadyAdded | TypeError

text \<open>A call either returns, with the task as it now is, or throws, leaving the task
  as it was mutated up to the throw.\<close>

type_synonym outcome = "(error \<times> TaskDefinition) + TaskDefinition"

definition taskAfter :: "outcome \<Rightarrow> TaskDefinition" where
  "taskAfter r = (case r of Inl (e, t) \<Rightarrow> t | Inr t \<Rightarrow> t)"

definition containerNamesOf :: "TaskDefinition \<Rightarrow> string list" where
  "containerNamesOf task = map containerName (containers task)"

text \<open>Modelled from the spec: the container the task builds from a name and a
  definition (the constructor of \<open>ContainerDefinition\<close> in the ECS library, which is
  not part of this repository).\<close>

definition newContainer :: "string \<Rightarrow> ContainerDefinitionOptions \<Rightarrow> ContainerDefinition" where
  "newContainer name opts =
     \<lparr> containerName = name,
       c_image = opt_image opts,
       memoryLimitMiB = opt_memoryLimitMiB opts,
       cpu = (case opt_cpu opts of None \<Rightarrow> None | Some v \<Rightarrow> v),
       environment = opt_environment opts,
       secrets = opt_secrets opts,
       logDriverConfig = opt_logging opts,
       firelensConfig = opt_firelensConfig opts \<rparr>"

text \<open>Modelled from the spec: \<open>addContainer(name, definition)\<close> of the task
  collaborator, which appends the container or fails on a duplicate name.\<close>

definition addContainer ::
  "string \<Rightarrow> ContainerDefinitionOptions \<Rightarrow> TaskDefinition \<Rightarrow> error + TaskDefinition" where
  "addContainer name opts task =
     (if name \<in> set (containerNamesOf task) then Inl (DuplicateContainerName name)
      else Inr (task\<lparr>containers := containers task @ [newContainer name opts]\<rparr>))"

text \<open>Modelled from the spec: \<open>addFirelensLogRouter\<close> of the task collaborator. A task
  holds zero or one log router, and the router is a container under its name.\<close>

definition addFirelensLogRouter ::
  "string \<Rightarrow> ContainerDefinitionOptions \<Rightarrow> TaskDefinition \<Rightarrow> error + TaskDefinition" where
  "addFirelensLogRouter name opts task =
     (if \<exists>c \<in> set (containers task). firelensConfig c \<noteq> None then Inl FirelensRouterAlreadyAdded
      else addContainer name opts task)"

text \<open>Modelled from the spec: \<open>findContainer(name)\<close> of the task collaborator, the
  first container of that name or \<open>undefined\<close>.\<close>

definition findContainer :: "string \<Rightarrow> TaskDefinition \<Rightarrow> ContainerDefinition option" where
  "findContainer name task = find (\<lambda>c. containerName c = name) (containers task)"

text \<open>Modelled from the spec: \<open>Container.addEnvironment(key, value)\<close>, which writes
  the key, over an earlier value if there is one.\<close>

definition addEnvironment :: "string \<Rightarrow> string \<Rightarrow> ContainerDefinition \<Rightarrow> ContainerDefinition" where
  "addEnvironment name val c = c\<lparr>environment := (environment c)(name \<mapsto> val)\<rparr>"

text \<open>Containers are objects: what \<open>findContainer\<close> returns is the container in the
  task, and a write to it is a write to the task. \<open>store name c' cs\<close> puts the
  mutated container \<open>c'\<close> back where \<open>findContainer name\<close> found it.\<close>

fun store :: "string \<Rightarrow> ContainerDefinition \<Rightarrow> ContainerDefinition list \<Rightarrow> ContainerDefinition list" where
  "store name c' [] = []"
| "store name c' (c # cs) = (if containerName c = name then c' # cs else c # store name c' cs)"

subsection \<open>\<open>addDatadogToFargateTask\<close>\<close>

text \<open>The \<open>environment\<close> literal of the agent container. A spread \<open>...x\<close> is
  \<open>++\<close>.\<close>

definition agentEnvironment :: "AddDatadogToFargateTaskProps \<Rightarrow> (string \<rightharpoonup> string)" where
  "agentEnvironment props =
     [''ECS_FARGATE'' \<mapsto> ''true'', ''DD_SITE'' \<mapsto> orElse (datadogSite props) ''datadoghq.com'']
     ++ (if truthy_bool (Option.bind (agent_apm props) apm_enabled)
         then [''DD_APM_ENABLED'' \<mapsto> ''true'',
               ''DD_APM_RECEIVER_PORT'' \<mapsto> portString (Option.bind (agent_apm props) apm_port) ''8126'']
         else [''DD_APM_ENABLED'' \<mapsto> ''false''])
     ++ (if truthy_bool (Option.bind (agent_statsd props) statsd_enabled)
         then [''DD_USE_DOGSTATSD'' \<mapsto> ''true'',
               ''DD_DOGSTATSD_PORT'' \<mapsto> portString (Option.bind (agent_statsd props) statsd_port) ''8125'']
         else [''DD_USE_DOGSTATSD'' \<mapsto> ''false''])
     ++ (case Option.bind (agent props) agent_tags of
           Some tags \<Rightarrow> [''DD_TAGS'' \<mapsto> formatTags tags '' '']
         | None \<Rightarrow> Map.empty)"

text \<open>The definition passed to \<open>task.addContainer('datadog-agent', ...)\<close>. The
  \<open>cpu\<close> key is spread in when \<open>props.agent?.cpu\<close> is truthy, and its value is
  \<open>props.fireLensLogging?.cpu\<close>.\<close>

definition agentContainerOptions :: "AddDatadogToFargateTaskProps \<Rightarrow> ContainerDefinitionOptions" where
  "agentContainerOptions props =
     \<lparr> opt_image = orElse (Option.bind (agent props) agent_image)
         (fromRegistry (''public.ecr.aws/datadog/agent:''
            @ orElse (Option.bind (agent props) agent_imageTag) ''latest'')),
       opt_memoryLimitMiB = Some (orElse (Option.bind (agent props) agent_memoryLimitMiB) 256),
       opt_cpu = (if truthy_number (Option.bind (agent props) agent_cpu)
                  then Some (Option.bind (fireLensLogging props) fl_cpu) else None),
       opt_logging = (if truthy_bool (Option.bind (agent props) logToCloudWatch)
                      then Some (awsLogs ''datadog-agent'') else None),
       opt_environment = agentEnvironment props,
       opt_secrets = [''DD_API_KEY'' \<mapsto> datadogApiKeySecret props],
       opt_firelensConfig = None \<rparr>"

text \<open>The shape of both propagation loops:
  \<^verbatim>\<open>for (const containerName of containerNames) {
     const container = task.findContainer(containerName);
     if (container) { body } }\<close>\<close>

fun forEachFound ::
  "(ContainerDefinition \<Rightarrow> ContainerDefinition) \<Rightarrow> string list \<Rightarrow> TaskDefinition \<Rightarrow> TaskDefinition" where
  "forEachFound body [] task = task"
| "forEachFound body (name # names) task =
     forEachFound body names
       (case findContainer name task of
          None \<Rightarrow> task
        | Some container \<Rightarrow> task\<lparr>containers := store name (body container) (containers task)\<rparr>)"

text \<open>The three \<open>addEnvironment\<close> calls of the APM loop and the two of the StatsD
  loop.\<close>

definition apmEnvVars :: "AddDatadogToFargateTaskProps \<Rightarrow> ContainerDefinition \<Rightarrow> ContainerDefinition" where
  "apmEnvVars props container =
     addEnvironment
       (orElse (Option.bind (agent_apm_vars props) apmPortEnvVarName) ''DD_TRACE_AGENT_PORT'')
       (portString (Option.bind (agent_apm props) apm_port) ''8126'')
       (addEnvironment
          (orElse (Option.bind (agent_apm_vars props) apmHostEnvVarName) ''DD_AGENT_HOST'')
          ''localhost''
          (addEnvironment
             (orElse (Option.bind (agent_apm_vars props) apmTraceEnabledEnvVarName) ''DD_TRACE_ENABLED'')
             ''true'' container))"

definition statsdEnvVars :: "AddDatadogToFargateTaskProps \<Rightarrow> ContainerDefinition \<Rightarrow> ContainerDefinition" where
  "statsdEnvVars props container =
     addEnvironment
       (orElse (Option.bind (agent_statsd_vars props) statsdPortEnvVarName) ''STATSD_PORT'')
       (portString (Option.bind (agent_statsd props) statsd_port) ''8125'')
       (addEnvironment
          (orElse (Option.bind (agent_statsd_vars props) statsdHostEnvVarName) ''STATSD_HOST'')
          ''localhost'' container)"

text \<open>The two guards: \<open>enabled && applicationEnvVars?.doNotSet !== true\<close>.\<close>

definition apmPropagates :: "AddDatadogToFargateTaskProps \<Rightarrow> bool" where
  "apmPropagates props \<longleftrightarrow>
     truthy_bool (Option.bind (agent_apm props) apm_enabled)
     \<and> Option.bind (agent_apm_vars props) apm_doNotSet \<noteq> Some True"

definition statsdPropagates :: "AddDatadogToFargateTaskProps \<Rightarrow> bool" where
  "statsdPropagates props \<longleftrightarrow>
     truthy_bool (Option.bind (agent_statsd props) statsd_enabled)
     \<and> Option.bind (agent_statsd_vars props) statsd_doNotSet \<noteq> Some True"

text \<open>The block under \<open>if (props.agent?.enabled)\<close>: a failure of \<open>addContainer\<close> is
  not caught.\<close>

definition addAgent :: "string list \<Rightarrow> TaskDefinition \<Rightarrow> AddDatadogToFargateTaskProps \<Rightarrow> outcome" where
  "addAgent containerNames task props =
     (case addContainer ''datadog-agent'' (agentContainerOptions props) task of
        Inl e \<Rightarrow> Inl (e, task)
      | Inr task1 \<Rightarrow>
          (let task2 = (if apmPropagates props
                        then forEachFound (apmEnvVars props) containerNames task1 else task1);
               task3 = (if statsdPropagates props
                        then forEachFound (statsdEnvVars props) containerNames task2 else task2)
           in Inr task3))"

text \<open>The definition passed to \<open>task.addFirelensLogRouter('log_router', ...)\<close>.\<close>

definition logRouterOptions :: "AddDatadogToFargateTaskProps \<Rightarrow> ContainerDefinitionOptions" where
  "logRouterOptions props =
     \<lparr> opt_image = orElse (Option.bind (fireLensLogging props) fl_image)
         (fromRegistry (''public.ecr.aws/aws-observability/aws-for-fluent-bit:''
            @ orElse (Option.bind (fireLensLogging props) fl_imageTag) ''latest'')),
       opt_memoryLimitMiB = Some (orElse (Option.bind (fireLensLogging props) fl_memoryLimitMiB) 256),
       opt_cpu = (if truthy_number (Option.bind (fireLensLogging props) fl_cpu)
                  then Some (Option.bind (fireLensLogging props) fl_cpu) else None),
       opt_logging = None,
       opt_environment = Map.empty,
       opt_secrets = Map.empty,
       opt_firelensConfig = Some \<lparr> firelensType = FLUENTBIT, enableECSLogMetadata = Some True \<rparr> \<rparr>"

text \<open>The \<open>options\<close> literal of \<open>ecs.LogDrivers.firelens\<close>, and the driver.\<close>

definition firelensOptions :: "AddDatadogToFargateTaskProps \<Rightarrow> (string \<rightharpoonup> string)" where
  "firelensOptions props =
     [''Name'' \<mapsto> ''datadog'',
      ''Host'' \<mapsto> ''http-intake.logs.'' @ orElse (datadogSite props) ''datadoghq.com'',
      ''TLS'' \<mapsto> ''on'',
      ''provider'' \<mapsto> ''ecs'',
      ''dd_message_key'' \<mapsto> ''log'']
     ++ (if truthy_string (Option.bind (fireLensLogging props) fl_service)
         then (case Option.bind (fireLensLogging props) fl_service of
                 Some s \<Rightarrow> [''dd_service'' \<mapsto> s] | None \<Rightarrow> Map.empty)
         else Map.empty)
     ++ (if truthy_string (Option.bind (fireLensLogging props) fl_source)
         then (case Option.bind (fireLensLogging props) fl_source of
                 Some s \<Rightarrow> [''dd_source'' \<mapsto> s] | None \<Rightarrow> Map.empty)
         else Map.empty)
     ++ (case Option.bind (fireLensLogging props) fl_tags of
           Some tags \<Rightarrow> [''dd_tags'' \<mapsto> formatTags tags '','']
         | None \<Rightarrow> Map.empty)"

definition firelensLogDriver :: "AddDatadogToFargateTaskProps \<Rightarrow> LogDriver" where
  "firelensLogDriver props =
     firelens (firelensOptions props) [''apikey'' \<mapsto> datadogApiKeySecret props]"

text \<open>The binding loop has no \<open>if (container)\<close>: on a name that
  \<open>findContainer\<close> does not resolve, \<open>container\<close> is \<open>undefined\<close> and the
  assignment to \<open>container.logDriverConfig\<close> throws a \<open>TypeError\<close>.\<close>

fun bindLogDriver :: "LogDriver \<Rightarrow> string list \<Rightarrow> TaskDefinition \<Rightarrow> outcome" where
  "bindLogDriver driver [] task = Inr task"
| "bindLogDriver driver (name # names) task =
     (case findContainer name task of
        None \<Rightarrow> Inl (TypeError, task)
      | Some container \<Rightarrow>
          bindLogDriver driver names
            (task\<lparr>containers :=
               store name (container\<lparr>logDriverConfig := Some driver\<rparr>) (containers task)\<rparr>))"

text \<open>The block under \<open>if (props.fireLensLogging?.enabled)\<close>.\<close>

definition addFirelens :: "string list \<Rightarrow> TaskDefinition \<Rightarrow> AddDatadogToFargateTaskProps \<Rightarrow> outcome" where
  "addFirelens containerNames task props =
     (case addFirelensLogRouter ''log_router'' (logRouterOptions props) task of
        Inl e \<Rightarrow> Inl (e, task)
      | Inr task1 \<Rightarrow> bindLogDriver (firelensLogDriver props) containerNames task1)"

text \<open>The function from line 288 on, with the snapshot \<open>containerNames\<close> as taken.\<close>

definition injectDatadog :: "string list \<Rightarrow> TaskDefinition \<Rightarrow> AddDatadogToFargateTaskProps \<Rightarrow> outcome" where
  "injectDatadog containerNames task props =
     (case (if truthy_bool (Option.bind (agent props) agent_enabled)
            then addAgent containerNames task props else Inr task) of
        Inl failure \<Rightarrow> Inl failure
      | Inr task1 \<Rightarrow>
          (if truthy_bool (Option.bind (fireLensLogging props) fl_enabled)
           then addFirelens containerNames task1 props else Inr task1))"

text \<open>The whole function: snapshot the names of the containers of the task, then
  inject.\<close>

definition addDatadogToFargateTask :: "TaskDefinition \<Rightarrow> AddDatadogToFargateTaskProps \<Rightarrow> outcome" where
  "addDatadogToFargateTask task props = injectDatadog (containerNamesOf task) task props"

subsection \<open>What the call leaves behind\<close>

text \<open>The agent container as \<open>addContainer\<close> builds it, and a sibling container
  after the two propagation loops.\<close>

definition agentContainer :: "AddDatadogToFargateTaskProps \<Rightarrow> ContainerDefinition" where
  "agentContainer props = newContainer ''datadog-agent'' (agentContainerOptions props)"

definition siblingEnvVars :: "AddDatadogToFargateTaskProps \<Rightarrow> ContainerDefinition \<Rightarrow> ContainerDefinition" where
  "siblingEnvVars props c =
     (let c1 = (if apmPropagates props then apmEnvVars props c else c)
      in if statsdPropagates props then statsdEnvVars props c1 else c1)"

subsection \<open>Example inputs\<close>

definition noAgentProps :: DatadogFargateAgentProps where
  "noAgentProps =
     \<lparr> agent_enabled = None, agent_image = None, agent_imageTag = None,
       agent_memoryLimitMiB = None, agent_cpu = None, logToCloudWatch = None,
       agent_tags = None, apm = None, statsd = None \<rparr>"

definition noFirelensProps :: DatadogFargateFirelensLoggingProps where
  "noFirelensProps =
     \<lparr> fl_enabled = None, fl_service = None, fl_source = None, fl_tags = None,
       fl_memoryLimitMiB = None, fl_cpu = None, fl_image = None, fl_imageTag = None \<rparr>"

definition noApmProps :: DatadogFargateApmProps where
  "noApmProps = \<lparr> apm_enabled = None, apm_port = None, apm_applicationEnvVars = None \<rparr>"

definition noStatsdProps :: DatadogFargateStatsdProps where
  "noStatsdProps = \<lparr> statsd_enabled = None, statsd_port = None, statsd_applicationEnvVars = None \<rparr>"

definition minimalProps :: AddDatadogToFargateTaskProps where
  "minimalProps =
     \<lparr> datadogApiKeySecret = Secret 0, datadogSite = None, agent = None, fireLensLogging = None \<rparr>"

definition appContainer :: ContainerDefinition where
  "appContainer =
     \<lparr> containerName = ''app'', c_image = fromRegistry ''nginx'', memoryLimitMiB = Some 512,
       cpu = None, environment = [''MODE'' \<mapsto> ''prod''], secrets = Map.empty,
       logDriverConfig = None, firelensConfig = None \<rparr>"

definition appTask :: TaskDefinition where
  "appTask = \<lparr> containers = [appContainer] \<rparr>"

definition taggedProps :: "(string \<times> string) list \<Rightarrow> AddDatadogToFargateTaskProps" where
  "taggedProps T =
     minimalProps
       \<lparr> agent := Some (noAgentProps\<lparr>agent_enabled := Some True, agent_tags := Some T\<rparr>),
         fireLensLogging := Some (noFirelensProps\<lparr>fl_enabled := Some True, fl_tags := Some T\<rparr>) \<rparr>"

definition disabledProps :: AddDatadogToFargateTaskProps where
  "disabledProps =
     minimalProps
       \<lparr> agent := Some (noAgentProps
           \<lparr> agent_enabled := Some False,
             apm := Some (noApmProps\<lparr>apm_enabled := Some True\<rparr>),
             statsd := Some (noStatsdProps\<lparr>statsd_enabled := Some True\<rparr>) \<rparr>) \<rparr>"

definition defaultAgentProps :: AddDatadogToFargateTaskProps where
  "defaultAgentProps =
     minimalProps\<lparr>agent := Some (noAgentProps\<lparr>agent_enabled := Some True\<rparr>)\<rparr>"

definition taggedImageProps :: AddDatadogToFargateTaskProps where
  "taggedImageProps =
     minimalProps\<lparr>agent := Some (noAgentProps\<lparr>agent_enabled := Some True, agent_imageTag := Some ''7.50.0''\<rparr>)\<rparr>"

definition explicitImageProps :: AddDatadogToFargateTaskProps where
  "explicitImageProps =
     minimalProps\<lparr>agent := Some (noAgentProps
       \<lparr> agent_enabled := Some True, agent_image := Some (otherImage 1),
         agent_imageTag := Some ''7.50.0'' \<rparr>)\<rparr>"

definition zeroCpuProps :: AddDatadogToFargateTaskProps where
  "zeroCpuProps =
     minimalProps
       \<lparr> agent := Some (noAgentProps\<lparr>agent_enabled := Some True, agent_cpu := Some 0\<rparr>),
         fireLensLogging := Some (noFirelensProps\<lparr>fl_enabled := Some True, fl_cpu := Some 0\<rparr>) \<rparr>"

definition agentCpuProps :: AddDatadogToFargateTaskProps where
  "agentCpuProps =
     minimalProps\<lparr>agent := Some (noAgentProps\<lparr>agent_enabled := Some True, agent_cpu := Some 128\<rparr>)\<rparr>"


definition propagatingProps :: AddDatadogToFargateTaskProps where
  "propagatingProps =
     minimalProps
       \<lparr> agent := Some (noAgentProps
           \<lparr> agent_enabled := Some True,
             apm := Some (noApmProps\<lparr>apm_enabled := Some True\<rparr>),
             statsd := Some (noStatsdProps\<lparr>statsd_enabled := Some True\<rparr>) \<rparr>) \<rparr>"

definition propagatedTask :: TaskDefinition where
  "propagatedTask =
     \<lparr>containers =
        [appContainer
           \<lparr>environment :=
              [''MODE'' \<mapsto> ''prod'', ''DD_TRACE_ENABLED'' \<mapsto> ''true'',
               ''DD_AGENT_HOST'' \<mapsto> ''localhost'', ''DD_TRACE_AGENT_PORT'' \<mapsto> ''8126'',
               ''STATSD_HOST'' \<mapsto> ''localhost'', ''STATSD_PORT'' \<mapsto> ''8125'']\<rparr>,
         agentContainer propagatingProps]\<rparr>"

definition apmWithoutAgentProps :: AddDatadogToFargateTaskProps where
  "apmWithoutAgentProps =
     minimalProps\<lparr>agent := Some (noAgentProps\<lparr>apm := Some (noApmProps\<lparr>apm_enabled := Some True\<rparr>)\<rparr>)\<rparr>"

definition apmPortProps :: AddDatadogToFargateTaskProps where
  "apmPortProps =
     minimalProps
       \<lparr> agent := Some (noAgentProps
           \<lparr> agent_enabled := Some True,
             apm := Some (noApmProps\<lparr>apm_enabled := Some True, apm_port := Some 9126\<rparr>) \<rparr>) \<rparr>"

definition doNotSetProps :: AddDatadogToFargateTaskProps where
  "doNotSetProps =
     minimalProps
       \<lparr> agent := Some (noAgentProps
           \<lparr> agent_enabled := Some True,
             apm := Some (noApmProps
               \<lparr> apm_enabled := Some True,
                 apm_applicationEnvVars := Some
                   \<lparr> apm_doNotSet = Some True, apmHostEnvVarName = None,
                     apmPortEnvVarName = None, apmTraceEnabledEnvVarName = None \<rparr> \<rparr>),
             statsd := Some (noStatsdProps
               \<lparr> statsd_enabled := Some True,
                 statsd_applicationEnvVars := Some
                   \<lparr> statsd_doNotSet = Some True, statsdHostEnvVarName = None,
                     statsdPortEnvVarName = None \<rparr> \<rparr>) \<rparr>) \<rparr>"

definition myserviceProps :: AddDatadogToFargateTaskProps where
  "myserviceProps =
     minimalProps
       \<lparr> fireLensLogging := Some (noFirelensProps
           \<lparr> fl_enabled := Some True, fl_service := Some ''myservice'',
             fl_source := Some ''myservice'' \<rparr>) \<rparr>"

definition routedTask :: TaskDefinition where
  "routedTask =
     \<lparr>containers =
        [appContainer\<lparr>logDriverConfig := Some (firelensLogDriver myserviceProps)\<rparr>,
         newContainer ''log_router'' (logRouterOptions myserviceProps)]\<rparr>"

section \<open>Properties\<close>

subsection \<open>Tag flattening\<close>

lemma formatTags_Cons2:
  "formatTags (kv # kv' # tags) sep =
     fst kv @ '':'' @ snd kv @ sep @ formatTags (kv' # tags) sep"
  by (cases kv) (simp add: formatTags_def)

lemma formatTags_separators_differ:
  assumes "2 \<le> length tags"
  shows "formatTags tags '' '' \<noteq> formatTags tags '',''"
proof -
  from assms obtain kv kv' rest where t: "tags = kv # kv' # rest"
    by (cases tags; cases "tl tags") auto
  show ?thesis unfolding t formatTags_Cons2 by simp
qed

lemma agentEnvironment_DD_TAGS:
  "agentEnvironment props ''DD_TAGS'' =
     map_option (\<lambda>tags. formatTags tags '' '') (Option.bind (agent props) agent_tags)"
  by (simp add: agentEnvironment_def map_add_def split: option.splits)

lemma firelensOptions_dd_tags:
  "firelensOptions props ''dd_tags'' =
     map_option (\<lambda>tags. formatTags tags '','') (Option.bind (fireLensLogging props) fl_tags)"
  by (simp add: firelensOptions_def map_add_def split: option.splits)

text \<open>
  C3 (amended). For a tag mapping \<open>T\<close> with at least two entries, given as the tags
  of the agent and of Firelens alike, the agent's \<open>DD_TAGS\<close> is the \<open>key:value\<close> pairs
  of \<open>T\<close> joined by a single space, the Firelens \<open>dd_tags\<close> option is the same pairs
  joined by a comma, and the two strings differ.
\<close>

theorem C3_tag_separators:
  assumes "Option.bind (agent props) agent_tags = Some T"
    and "Option.bind (fireLensLogging props) fl_tags = Some T"
    and "2 \<le> length T"
  shows "agentEnvironment props ''DD_TAGS'' = Some (join '' '' (map (\<lambda>(k, v). k @ '':'' @ v) T))
       \<and> firelensOptions props ''dd_tags'' = Some (join '','' (map (\<lambda>(k, v). k @ '':'' @ v) T))
       \<and> agentEnvironment props ''DD_TAGS'' \<noteq> firelensOptions props ''dd_tags''"
  using assms formatTags_separators_differ [of T]
  by (simp add: agentEnvironment_DD_TAGS firelensOptions_dd_tags formatTags_def)

theorem C3_tag_separators_witness:
  "2 \<le> length [(''env'', ''prod''), (''team'', ''core'')]
   \<and> agentEnvironment (taggedProps [(''env'', ''prod''), (''team'', ''core'')]) ''DD_TAGS''
     = Some ''env:prod team:core''
   \<and> firelensOptions (taggedProps [(''env'', ''prod''), (''team'', ''core'')]) ''dd_tags''
     = Some ''env:prod,team:core''
   \<and> agentEnvironment (taggedProps [(''env'', ''prod''), (''team'', ''core'')]) ''DD_TAGS''
     \<noteq> firelensOptions (taggedProps [(''env'', ''prod''), (''team'', ''core'')]) ''dd_tags''"
  using C3_tag_separators [of "taggedProps [(''env'', ''prod''), (''team'', ''core'')]"
      "[(''env'', ''prod''), (''team'', ''core'')]"]
  by (simp add: taggedProps_def minimalProps_def noAgentProps_def noFirelensProps_def)

text \<open>
  The claim as written fails on a mapping with one entry: nothing is joined, and both
  flattenings of \<open>{env: 'prod'}\<close> are \<open>env:prod\<close>.
\<close>

theorem C3_single_tag_counterexample:
  "agentEnvironment (taggedProps [(''env'', ''prod'')]) ''DD_TAGS'' = Some ''env:prod''
   \<and> firelensOptions (taggedProps [(''env'', ''prod'')]) ''dd_tags'' = Some ''env:prod''
   \<and> formatTags [(''env'', ''prod'')] '' '' = formatTags [(''env'', ''prod'')] '',''"
  by (simp add: agentEnvironment_DD_TAGS firelensOptions_dd_tags formatTags_def
      taggedProps_def minimalProps_def noAgentProps_def noFirelensProps_def)

subsection \<open>The store and the propagation loop\<close>

lemma find_name: "find (\<lambda>c. containerName c = n) cs = Some c \<Longrightarrow> containerName c = n"
  by (induction cs) (auto split: if_splits)

lemma findContainer_name: "findContainer n task = Some c \<Longrightarrow> containerName c = n"
  unfolding findContainer_def by (rule find_name)

lemma findContainer_None: "findContainer n task = None \<longleftrightarrow> n \<notin> set (containerNamesOf task)"
  by (auto simp: findContainer_def containerNamesOf_def find_None_iff)

lemma store_names:
  "containerName c' = n \<Longrightarrow> map containerName (store n c' cs) = map containerName cs"
  by (induction cs) auto

lemma find_store_other:
  "n' \<noteq> n \<Longrightarrow> containerName c' = n \<Longrightarrow>
   find (\<lambda>c. containerName c = n') (store n c' cs) = find (\<lambda>c. containerName c = n') cs"
  by (induction cs) auto

lemma store_distinct:
  "distinct (map containerName cs) \<Longrightarrow> find (\<lambda>c. containerName c = n) cs = Some c \<Longrightarrow>
   store n (f c) cs = map (\<lambda>x. if containerName x = n then f x else x) cs"
proof (induction cs)
  case Nil
  then show ?case by simp
next
  case (Cons a cs)
  show ?case
  proof (cases "containerName a = n")
    case True
    with Cons.prems have "a = c" and "n \<notin> set (map containerName cs)" by auto
    then have "map (\<lambda>x. if containerName x = n then f x else x) cs = cs"
      by (intro map_idI) auto
    with True \<open>a = c\<close> show ?thesis by simp
  next
    case False
    with Cons show ?thesis by simp
  qed
qed

lemma forEachFound_names:
  assumes "\<And>c. containerName (body c) = containerName c"
  shows "containerNamesOf (forEachFound body ns task) = containerNamesOf task"
proof (induction ns arbitrary: task)
  case Nil
  then show ?case by simp
next
  case (Cons n ns)
  show ?case
  proof (cases "findContainer n task")
    case None
    with Cons show ?thesis by simp
  next
    case (Some c)
    then have "containerName (body c) = n" using assms findContainer_name by simp
    with Some Cons show ?thesis by (simp add: containerNamesOf_def store_names)
  qed
qed

lemma forEachFound_find_other:
  assumes "\<And>c. containerName (body c) = containerName c" and "n' \<notin> set ns"
  shows "findContainer n' (forEachFound body ns task) = findContainer n' task"
  using assms(2)
proof (induction ns arbitrary: task)
  case Nil
  then show ?case by simp
next
  case (Cons n ns)
  show ?case
  proof (cases "findContainer n task")
    case None
    with Cons show ?thesis by simp
  next
    case (Some c)
    then have "containerName (body c) = n" using assms(1) findContainer_name by simp
    with Some Cons show ?thesis by (simp add: findContainer_def find_store_other)
  qed
qed

lemma forEachFound_distinct:
  assumes "\<And>c. containerName (body c) = containerName c"
  shows "distinct (containerNamesOf task) \<Longrightarrow> distinct ns \<Longrightarrow>
         containers (forEachFound body ns task) =
           map (\<lambda>c. if containerName c \<in> set ns then body c else c) (containers task)"
proof (induction ns arbitrary: task)
  case Nil
  then show ?case by simp
next
  case (Cons n ns)
  show ?case
  proof (cases "findContainer n task")
    case None
    then have "\<forall>c \<in> set (containers task). containerName c \<noteq> n"
      by (auto simp: findContainer_None containerNamesOf_def)
    with None Cons show ?thesis by (auto intro!: map_cong)
  next
    case (Some c)
    let ?task' = "task\<lparr>containers := store n (body c) (containers task)\<rparr>"
    have st: "containers ?task' = map (\<lambda>x. if containerName x = n then body x else x) (containers task)"
      using store_distinct [of "containers task" n c body] Cons.prems(1) Some
      by (simp add: containerNamesOf_def findContainer_def)
    have "containerNamesOf ?task' = containerNamesOf task"
      using st assms by (auto simp: containerNamesOf_def)
    then have "containers (forEachFound body ns ?task') =
      map (\<lambda>c. if containerName c \<in> set ns then body c else c) (containers ?task')"
      using Cons.IH [of ?task'] Cons.prems by simp
    then show ?thesis using Some Cons.prems(2) assms by (auto simp: st)
  qed
qed

subsection \<open>The binding loop\<close>

lemma find_append_case:
  "find P (xs @ ys) = (case find P xs of Some x \<Rightarrow> Some x | None \<Rightarrow> find P ys)"
  by (induction xs) auto

lemma store_environment:
  "find (\<lambda>c. containerName c = n) cs = Some c \<Longrightarrow> environment c' = environment c \<Longrightarrow>
   map environment (store n c' cs) = map environment cs"
  by (induction cs) (auto split: if_splits)

lemma bindLogDriver_names:
  "containerNamesOf (taskAfter (bindLogDriver d ns task)) = containerNamesOf task"
proof (induction ns arbitrary: task)
  case Nil
  then show ?case by (simp add: taskAfter_def)
next
  case (Cons n ns)
  show ?case
  proof (cases "findContainer n task")
    case None
    then show ?thesis by (simp add: taskAfter_def)
  next
    case (Some c)
    then have "containerName c = n" by (rule findContainer_name)
    with Some Cons show ?thesis by (simp add: containerNamesOf_def store_names)
  qed
qed

lemma bindLogDriver_environment:
  "map environment (containers (taskAfter (bindLogDriver d ns task))) =
   map environment (containers task)"
proof (induction ns arbitrary: task)
  case Nil
  then show ?case by (simp add: taskAfter_def)
next
  case (Cons n ns)
  show ?case
  proof (cases "findContainer n task")
    case None
    then show ?thesis by (simp add: taskAfter_def)
  next
    case (Some c)
    then have "map environment (store n (c\<lparr>logDriverConfig := Some d\<rparr>) (containers task))
      = map environment (containers task)"
      by (intro store_environment [of n _ c]) (simp_all add: findContainer_def)
    with Some Cons show ?thesis by simp
  qed
qed

lemma bindLogDriver_find_other:
  "n' \<notin> set ns \<Longrightarrow>
   findContainer n' (taskAfter (bindLogDriver d ns task)) = findContainer n' task"
proof (induction ns arbitrary: task)
  case Nil
  then show ?case by (simp add: taskAfter_def)
next
  case (Cons n ns)
  show ?case
  proof (cases "findContainer n task")
    case None
    then show ?thesis by (simp add: taskAfter_def)
  next
    case (Some c)
    then have "containerName c = n" by (rule findContainer_name)
    with Some Cons show ?thesis by (simp add: findContainer_def find_store_other)
  qed
qed

lemma bindLogDriver_distinct:
  "distinct (containerNamesOf task) \<Longrightarrow> distinct ns \<Longrightarrow> set ns \<subseteq> set (containerNamesOf task) \<Longrightarrow>
   bindLogDriver d ns task =
     Inr (task\<lparr>containers :=
            map (\<lambda>c. if containerName c \<in> set ns then c\<lparr>logDriverConfig := Some d\<rparr> else c)
              (containers task)\<rparr>)"
proof (induction ns arbitrary: task)
  case Nil
  then show ?case by simp
next
  case (Cons n ns)
  from Cons.prems(3) obtain c where Some: "findContainer n task = Some c"
    using findContainer_None [of n task] by (cases "findContainer n task") auto
  let ?task' = "task\<lparr>containers := store n (c\<lparr>logDriverConfig := Some d\<rparr>) (containers task)\<rparr>"
  have st: "containers ?task' =
      map (\<lambda>x. if containerName x = n then x\<lparr>logDriverConfig := Some d\<rparr> else x) (containers task)"
    using store_distinct [of "containers task" n c "\<lambda>x. x\<lparr>logDriverConfig := Some d\<rparr>"]
      Cons.prems(1) Some
    by (simp add: containerNamesOf_def findContainer_def)
  have nm: "containerNamesOf ?task' = containerNamesOf task"
    using st by (auto simp: containerNamesOf_def)
  have "bindLogDriver d ns ?task' =
     Inr (?task'\<lparr>containers :=
            map (\<lambda>c. if containerName c \<in> set ns then c\<lparr>logDriverConfig := Some d\<rparr> else c)
              (containers ?task')\<rparr>)"
    using Cons.IH [of ?task'] Cons.prems nm by simp
  then show ?case using Some Cons.prems(2) by (auto simp: st)
qed

lemma apmEnvVars_name [simp]: "containerName (apmEnvVars props c) = containerName c"
  by (simp add: apmEnvVars_def addEnvironment_def)

lemma statsdEnvVars_name [simp]: "containerName (statsdEnvVars props c) = containerName c"
  by (simp add: statsdEnvVars_def addEnvironment_def)

subsection \<open>The agent block\<close>

lemma task_eqI: "containers t = containers t' \<Longrightarrow> t = t'" for t t' :: TaskDefinition
  by simp

lemma addAgent_duplicate:
  "''datadog-agent'' \<in> set (containerNamesOf task) \<Longrightarrow>
   addAgent ns task props = Inl (DuplicateContainerName ''datadog-agent'', task)"
  by (simp add: addAgent_def addContainer_def)

lemma addAgent_names:
  "''datadog-agent'' \<notin> set (containerNamesOf task) \<Longrightarrow>
   \<exists>t. addAgent ns task props = Inr t
     \<and> containerNamesOf t = containerNamesOf task @ [''datadog-agent'']"
  by (simp add: addAgent_def addContainer_def Let_def forEachFound_names)
     (simp add: containerNamesOf_def newContainer_def)

lemma addAgent_find:
  assumes "''datadog-agent'' \<notin> set (containerNamesOf task)" and "''datadog-agent'' \<notin> set ns"
  shows "\<exists>t. addAgent ns task props = Inr t
     \<and> findContainer ''datadog-agent'' t = Some (agentContainer props)"
proof -
  let ?t1 = "task\<lparr>containers := containers task @ [agentContainer props]\<rparr>"
  have "find (\<lambda>c. containerName c = ''datadog-agent'') (containers task) = None"
    using assms(1) findContainer_None [of "''datadog-agent''" task] by (simp add: findContainer_def)
  then have "findContainer ''datadog-agent'' ?t1 = Some (agentContainer props)"
    by (simp add: findContainer_def find_append_case agentContainer_def newContainer_def)
  then show ?thesis using assms
    by (simp add: addAgent_def addContainer_def Let_def forEachFound_find_other agentContainer_def)
qed

lemma forEachFound_siblings:
  assumes body: "\<And>c. containerName (body c) = containerName c"
    and t: "containers t = cs @ [a]"
    and d: "distinct (map containerName cs)" and a: "containerName a \<notin> set (map containerName cs)"
  shows "containers (forEachFound body (map containerName cs) t) = map body cs @ [a]"
proof -
  have "distinct (containerNamesOf t)"
    using t d a by (simp add: containerNamesOf_def)
  then have "containers (forEachFound body (map containerName cs) t) =
      map (\<lambda>c. if containerName c \<in> set (map containerName cs) then body c else c) (cs @ [a])"
    using forEachFound_distinct [of body t "map containerName cs"] body d t by simp
  also have "\<dots> = map body cs @ [a]"
    using a by simp
  finally show ?thesis .
qed

lemma addAgent_distinct:
  assumes "''datadog-agent'' \<notin> set (containerNamesOf task)" and "distinct (containerNamesOf task)"
  shows "addAgent (containerNamesOf task) task props =
     Inr (task\<lparr>containers := map (siblingEnvVars props) (containers task) @ [agentContainer props]\<rparr>)"
proof -
  let ?cs = "containers task"
  let ?ns = "map containerName ?cs"
  let ?a = "agentContainer props"
  let ?t1 = "task\<lparr>containers := ?cs @ [?a]\<rparr>"
  let ?t2 = "if apmPropagates props then forEachFound (apmEnvVars props) ?ns ?t1 else ?t1"
  let ?t3 = "if statsdPropagates props then forEachFound (statsdEnvVars props) ?ns ?t2 else ?t2"
  let ?cs2 = "map (\<lambda>c. if apmPropagates props then apmEnvVars props c else c) ?cs"
  have d: "distinct ?ns" and a: "containerName ?a \<notin> set ?ns"
    using assms by (simp_all add: containerNamesOf_def agentContainer_def newContainer_def)
  have c2: "containers ?t2 = ?cs2 @ [?a]"
    using forEachFound_siblings [of "apmEnvVars props" ?t1 ?cs ?a] d a by simp
  have n2: "map containerName ?cs2 = ?ns"
    by simp
  have "containers (forEachFound (statsdEnvVars props) (map containerName ?cs2) ?t2)
      = map (statsdEnvVars props) ?cs2 @ [?a]"
    using forEachFound_siblings [of "statsdEnvVars props" ?t2 ?cs2 ?a] c2 d a unfolding n2 by simp
  then have c3: "containers ?t3 = map (siblingEnvVars props) ?cs @ [?a]"
    using c2 unfolding n2 by (simp add: siblingEnvVars_def Let_def)
  have "addAgent (containerNamesOf task) task props = Inr ?t3"
    using assms(1)
    by (simp add: addAgent_def addContainer_def Let_def agentContainer_def containerNamesOf_def)
  then show ?thesis using c3 by (simp add: task_eqI)
qed

subsection \<open>The Firelens block and the whole call\<close>

lemma addFirelens_cases:
  "(\<exists>e. addFirelens ns t props = Inl (e, t))
   \<or> addFirelens ns t props =
       bindLogDriver (firelensLogDriver props) ns
         (t\<lparr>containers := containers t @ [newContainer ''log_router'' (logRouterOptions props)]\<rparr>)"
  by (cases "\<exists>c \<in> set (containers t). firelensConfig c \<noteq> None";
      cases "''log_router'' \<in> set (containerNamesOf t)")
     (simp_all add: addFirelens_def addFirelensLogRouter_def addContainer_def)

lemma addFirelens_environment:
  "take (length (containers t)) (map environment (containers (taskAfter (addFirelens ns t props))))
     = map environment (containers t)"
  using addFirelens_cases [of ns t props]
  by (auto simp: bindLogDriver_environment) (simp add: taskAfter_def)

lemma addFirelens_names:
  "take (length (containers t)) (containerNamesOf (taskAfter (addFirelens ns t props)))
     = containerNamesOf t"
  using addFirelens_cases [of ns t props]
  by (auto simp: bindLogDriver_names) (simp_all add: taskAfter_def containerNamesOf_def)

lemma addFirelens_find:
  assumes "findContainer n t = Some c" and "n \<notin> set ns"
  shows "findContainer n (taskAfter (addFirelens ns t props)) = Some c"
  using addFirelens_cases [of ns t props] assms
  by (auto simp: bindLogDriver_find_other)
     (simp_all add: taskAfter_def findContainer_def find_append_case)

lemma taskAfter_injectDatadog:
  "taskAfter (injectDatadog ns task props) =
     (case (if truthy_bool (Option.bind (agent props) agent_enabled)
            then addAgent ns task props else Inr task) of
        Inl (e, t) \<Rightarrow> t
      | Inr t1 \<Rightarrow> if truthy_bool (Option.bind (fireLensLogging props) fl_enabled)
                  then taskAfter (addFirelens ns t1 props) else t1)"
  by (simp add: injectDatadog_def taskAfter_def split: sum.splits prod.splits)

lemma agent_container_after:
  assumes "truthy_bool (Option.bind (agent props) agent_enabled)"
    and "''datadog-agent'' \<notin> set (containerNamesOf task)"
  shows "findContainer ''datadog-agent'' (taskAfter (addDatadogToFargateTask task props))
           = Some (agentContainer props)"
proof -
  obtain t where t: "addAgent (containerNamesOf task) task props = Inr t"
    and f: "findContainer ''datadog-agent'' t = Some (agentContainer props)"
    using addAgent_find [OF assms(2) assms(2)] by blast
  show ?thesis
    using assms t f addFirelens_find [OF f assms(2)]
    by (simp add: addDatadogToFargateTask_def taskAfter_injectDatadog)
qed

lemma siblings_after:
  assumes "truthy_bool (Option.bind (agent props) agent_enabled)"
    and "''datadog-agent'' \<notin> set (containerNamesOf task)"
    and "distinct (containerNamesOf task)"
  shows "take (length (containers task))
           (map environment (containers (taskAfter (addDatadogToFargateTask task props))))
         = map (\<lambda>c. environment (siblingEnvVars props c)) (containers task)"
    and "take (length (containers task))
           (containerNamesOf (taskAfter (addDatadogToFargateTask task props)))
         = containerNamesOf task"
proof -
  let ?t = "task\<lparr>containers := map (siblingEnvVars props) (containers task) @ [agentContainer props]\<rparr>"
  have t: "addAgent (containerNamesOf task) task props = Inr ?t"
    using addAgent_distinct [OF assms(2,3)] .
  have sn: "containerName (siblingEnvVars props c) = containerName c" for c
    by (simp add: siblingEnvVars_def Let_def)
  have e: "take (length (containers task)) (map environment (containers ?t))
      = map (\<lambda>c. environment (siblingEnvVars props c)) (containers task)"
    and n: "take (length (containers task)) (containerNamesOf ?t) = containerNamesOf task"
    by (simp_all add: containerNamesOf_def sn)
  have l: "length (containers task) \<le> length (containers ?t)"
    by simp
  have "take (length (containers task))
      (take (length (containers ?t))
         (map environment (containers (taskAfter (addFirelens (containerNamesOf task) ?t props)))))
     = map (\<lambda>c. environment (siblingEnvVars props c)) (containers task)"
    unfolding addFirelens_environment using e .
  then show "take (length (containers task))
           (map environment (containers (taskAfter (addDatadogToFargateTask task props))))
         = map (\<lambda>c. environment (siblingEnvVars props c)) (containers task)"
    using assms(1) t e
    by (simp add: addDatadogToFargateTask_def taskAfter_injectDatadog min_def)
  have "take (length (containers task))
      (take (length (containers ?t))
         (containerNamesOf (taskAfter (addFirelens (containerNamesOf task) ?t props))))
     = containerNamesOf task"
    unfolding addFirelens_names using n .
  then show "take (length (containers task))
           (containerNamesOf (taskAfter (addDatadogToFargateTask task props)))
         = containerNamesOf task"
    using assms(1) t n
    by (simp add: addDatadogToFargateTask_def taskAfter_injectDatadog min_def)
qed

subsection \<open>Configuration resolution\<close>

lemmas example_defs =
  minimalProps_def noAgentProps_def noFirelensProps_def noApmProps_def noStatsdProps_def
  appTask_def appContainer_def

lemmas chain_defs =
  agent_apm_def agent_apm_vars_def agent_statsd_def agent_statsd_vars_def
  truthy_bool_def truthy_number_def truthy_string_def orElse_def portString_def

text \<open>
  C5. When neither \<open>agent.enabled\<close> nor \<open>fireLensLogging.enabled\<close> is \<open>true\<close>, the call
  returns and leaves the task as it was: no container is added, and no container's
  environment or log configuration changes.
\<close>

theorem C5_disabled_leaves_task_unchanged:
  assumes "Option.bind (agent props) agent_enabled \<noteq> Some True"
    and "Option.bind (fireLensLogging props) fl_enabled \<noteq> Some True"
  shows "addDatadogToFargateTask task props = Inr task"
  using assms by (simp add: addDatadogToFargateTask_def injectDatadog_def truthy_bool_def)

theorem C5_disabled_leaves_task_unchanged_witness:
  "Option.bind (agent disabledProps) agent_enabled \<noteq> Some True
   \<and> Option.bind (fireLensLogging disabledProps) fl_enabled \<noteq> Some True
   \<and> addDatadogToFargateTask appTask disabledProps = Inr appTask"
  using C5_disabled_leaves_task_unchanged [of disabledProps appTask]
  by (simp add: disabledProps_def example_defs)

text \<open>
  C7. With \<open>agent.enabled\<close> true, the image in the definition passed to
  \<open>addContainer\<close> is the explicit \<open>agent.image\<close> when there is one, whatever
  \<open>agent.imageTag\<close> is, and otherwise the registry path
  \<open>public.ecr.aws/datadog/agent:\<close> followed by \<open>agent.imageTag\<close>, or by \<open>latest\<close>
  when no tag is set. The container added to a task that has no \<open>datadog-agent\<close>
  yet carries that image.
\<close>

theorem C7_agent_image:
  assumes "truthy_bool (Option.bind (agent props) agent_enabled)"
  shows "opt_image (agentContainerOptions props) =
           (case Option.bind (agent props) agent_image of
              Some img \<Rightarrow> img
            | None \<Rightarrow> fromRegistry (''public.ecr.aws/datadog/agent:''
                @ (case Option.bind (agent props) agent_imageTag of
                     Some t \<Rightarrow> t | None \<Rightarrow> ''latest'')))
       \<and> (''datadog-agent'' \<notin> set (containerNamesOf task) \<longrightarrow>
            map_option c_image
              (findContainer ''datadog-agent'' (taskAfter (addDatadogToFargateTask task props)))
            = Some (opt_image (agentContainerOptions props)))"
  using assms agent_container_after [of props task]
  by (simp add: agentContainerOptions_def orElse_def agentContainer_def newContainer_def
      split: option.splits)

theorem C7_agent_image_witness:
  "truthy_bool (Option.bind (agent taggedImageProps) agent_enabled)
   \<and> opt_image (agentContainerOptions taggedImageProps)
     = fromRegistry ''public.ecr.aws/datadog/agent:7.50.0''
   \<and> opt_image (agentContainerOptions explicitImageProps) = otherImage 1
   \<and> map_option c_image
        (findContainer ''datadog-agent'' (taskAfter (addDatadogToFargateTask appTask explicitImageProps)))
     = Some (otherImage 1)"
proof -
  have h1: "truthy_bool (Option.bind (agent taggedImageProps) agent_enabled)"
    and h2: "truthy_bool (Option.bind (agent explicitImageProps) agent_enabled)"
    by (simp_all add: taggedImageProps_def explicitImageProps_def example_defs truthy_bool_def)
  have v1: "Option.bind (agent taggedImageProps) agent_image = None"
    "Option.bind (agent taggedImageProps) agent_imageTag = Some ''7.50.0''"
    and v2: "Option.bind (agent explicitImageProps) agent_image = Some (otherImage 1)"
    by (simp_all add: taggedImageProps_def explicitImageProps_def example_defs)
  have n: "''datadog-agent'' \<notin> set (containerNamesOf appTask)"
    by (simp add: containerNamesOf_def example_defs)
  from C7_agent_image [OF h1, of appTask] v1
  have c1: "opt_image (agentContainerOptions taggedImageProps)
      = fromRegistry ''public.ecr.aws/datadog/agent:7.50.0''"
    by simp
  from C7_agent_image [OF h2, of appTask] v2 n
  have c2: "opt_image (agentContainerOptions explicitImageProps) = otherImage 1
      \<and> map_option c_image
        (findContainer ''datadog-agent'' (taskAfter (addDatadogToFargateTask appTask explicitImageProps)))
       = Some (otherImage 1)"
    by auto
  show ?thesis using h1 c1 c2 by simp
qed

text \<open>
  C10. The \<open>cpu\<close> key is spread in on the truthiness of the configured number: when
  \<open>agent.cpu\<close> is unset or \<open>0\<close> the agent definition has no \<open>cpu\<close> key, and when
  \<open>fireLensLogging.cpu\<close> is unset or \<open>0\<close> the log router definition has none.
\<close>

theorem C10_falsy_cpu_is_unset:
  "(Option.bind (agent props) agent_cpu = None \<or> Option.bind (agent props) agent_cpu = Some 0
      \<longrightarrow> opt_cpu (agentContainerOptions props) = None)
   \<and> (Option.bind (fireLensLogging props) fl_cpu = None
        \<or> Option.bind (fireLensLogging props) fl_cpu = Some 0
      \<longrightarrow> opt_cpu (logRouterOptions props) = None)"
  by (auto simp: agentContainerOptions_def logRouterOptions_def truthy_number_def)

theorem C10_falsy_cpu_is_unset_witness:
  "Option.bind (agent zeroCpuProps) agent_cpu = Some 0
   \<and> opt_cpu (agentContainerOptions zeroCpuProps) = None
   \<and> Option.bind (fireLensLogging zeroCpuProps) fl_cpu = Some 0
   \<and> opt_cpu (logRouterOptions zeroCpuProps) = None"
  using C10_falsy_cpu_is_unset [of zeroCpuProps]
  by (simp add: zeroCpuProps_def example_defs)

text \<open>
  C2 fails on the code. With \<open>agent.cpu = 128\<close> and no \<open>fireLensLogging\<close>, the agent
  definition carries \<open>cpu: undefined\<close>, the value of \<open>props.fireLensLogging?.cpu\<close>, and
  the container added to the task has no CPU reservation.
\<close>

theorem C2_agent_cpu_taken_from_firelens:
  "Option.bind (agent agentCpuProps) agent_cpu = Some 128
   \<and> opt_cpu (agentContainerOptions agentCpuProps) = Some None
   \<and> map_option cpu
        (findContainer ''datadog-agent'' (taskAfter (addDatadogToFargateTask appTask agentCpuProps)))
     = Some None"
  using agent_container_after [of agentCpuProps appTask]
  by (simp add: agentCpuProps_def example_defs truthy_bool_def truthy_number_def
      containerNamesOf_def agentContainerOptions_def agentContainer_def newContainer_def)

subsection \<open>Repeated calls and stale snapshots\<close>

lemma agent_name_after:
  assumes "truthy_bool (Option.bind (agent props) agent_enabled)"
  shows "''datadog-agent'' \<in> set (containerNamesOf (taskAfter (addDatadogToFargateTask task props)))"
proof (cases "''datadog-agent'' \<in> set (containerNamesOf task)")
  case True
  then show ?thesis using assms
    by (simp add: addDatadogToFargateTask_def taskAfter_injectDatadog addAgent_duplicate)
next
  case False
  then have "findContainer ''datadog-agent'' (taskAfter (addDatadogToFargateTask task props)) \<noteq> None"
    using agent_container_after [OF assms] by simp
  then show ?thesis by (simp add: findContainer_None)
qed

text \<open>
  C9. Whatever the first call with \<open>agent.enabled\<close> true did to the task, a second
  call with \<open>agent.enabled\<close> true on the task it left throws the duplicate-name error
  for \<open>datadog-agent\<close> that \<open>addContainer\<close> raises, and the task is then exactly as
  the first call left it, the \<open>datadog-agent\<close> container included.
\<close>

theorem C9_second_call_fails:
  assumes "truthy_bool (Option.bind (agent props1) agent_enabled)"
    and "truthy_bool (Option.bind (agent props2) agent_enabled)"
  shows "addDatadogToFargateTask (taskAfter (addDatadogToFargateTask task props1)) props2
           = Inl (DuplicateContainerName ''datadog-agent'',
                  taskAfter (addDatadogToFargateTask task props1))
       \<and> ''datadog-agent'' \<in> set (containerNamesOf (taskAfter (addDatadogToFargateTask task props1)))"
  using assms(2) agent_name_after [OF assms(1), of task]
  by (simp add: addDatadogToFargateTask_def [of _ props2] injectDatadog_def addAgent_duplicate)

theorem C9_second_call_fails_witness:
  "truthy_bool (Option.bind (agent propagatingProps) agent_enabled)
   \<and> addDatadogToFargateTask appTask propagatingProps = Inr propagatedTask
   \<and> addDatadogToFargateTask propagatedTask propagatingProps
     = Inl (DuplicateContainerName ''datadog-agent'', propagatedTask)"
proof -
  have h: "truthy_bool (Option.bind (agent propagatingProps) agent_enabled)"
    by (simp add: propagatingProps_def example_defs truthy_bool_def)
  have e: "addDatadogToFargateTask appTask propagatingProps = Inr propagatedTask"
    by (simp add: addDatadogToFargateTask_def injectDatadog_def addAgent_def addContainer_def
        containerNamesOf_def propagatingProps_def example_defs chain_defs apmPropagates_def
        statsdPropagates_def findContainer_def apmEnvVars_def statsdEnvVars_def addEnvironment_def
        agentContainer_def propagatedTask_def)
  from C9_second_call_fails [OF h h, of appTask] e h show ?thesis
    by (simp add: taskAfter_def)
qed









subsection \<open>APM propagation\<close>

lemma agentEnvironment_no_trace_vars:
  "agentEnvironment props ''DD_TRACE_ENABLED'' = None"
  "agentEnvironment props ''DD_AGENT_HOST'' = None"
  "agentEnvironment props ''DD_TRACE_AGENT_PORT'' = None"
  by (simp_all add: agentEnvironment_def map_add_def split: option.splits)

text \<open>
  C1 (amended). Let \<open>agent.enabled\<close> and \<open>agent.apm.enabled\<close> be true,
  \<open>applicationEnvVars.doNotSet\<close> not true and none of the three variable names
  overridden, on a task whose container names are distinct and do not include
  \<open>datadog-agent\<close>. Then the containers present before the call keep their places and
  names, and the environment of each is its old environment with \<open>DD_TRACE_ENABLED\<close>
  set to \<open>true\<close>, \<open>DD_AGENT_HOST\<close> to \<open>localhost\<close> and \<open>DD_TRACE_AGENT_PORT\<close> to the
  stringified port (\<open>8126\<close> when none is configured), followed, only when StatsD
  propagation is on as well, by the StatsD host and port variables. The
  \<open>datadog-agent\<close> container has none of the three variables.
\<close>

theorem C1_apm_env_propagation:
  assumes "truthy_bool (Option.bind (agent props) agent_enabled)"
    and "truthy_bool (Option.bind (agent_apm props) apm_enabled)"
    and "Option.bind (agent_apm_vars props) apm_doNotSet \<noteq> Some True"
    and "Option.bind (agent_apm_vars props) apmTraceEnabledEnvVarName = None"
    and "Option.bind (agent_apm_vars props) apmHostEnvVarName = None"
    and "Option.bind (agent_apm_vars props) apmPortEnvVarName = None"
    and "distinct (containerNamesOf task)"
    and "''datadog-agent'' \<notin> set (containerNamesOf task)"
  shows "take (length (containers task))
           (containerNamesOf (taskAfter (addDatadogToFargateTask task props)))
         = containerNamesOf task
       \<and> take (length (containers task))
           (map environment (containers (taskAfter (addDatadogToFargateTask task props))))
         = map (\<lambda>c.
             let env = (environment c)
               (''DD_TRACE_ENABLED'' \<mapsto> ''true'',
                ''DD_AGENT_HOST'' \<mapsto> ''localhost'',
                ''DD_TRACE_AGENT_PORT'' \<mapsto>
                   (case Option.bind (agent_apm props) apm_port of
                      None \<Rightarrow> ''8126'' | Some p \<Rightarrow> String_number p))
             in if statsdPropagates props
                then env
                  (orElse (Option.bind (agent_statsd_vars props) statsdHostEnvVarName) ''STATSD_HOST''
                     \<mapsto> ''localhost'',
                   orElse (Option.bind (agent_statsd_vars props) statsdPortEnvVarName) ''STATSD_PORT''
                     \<mapsto> portString (Option.bind (agent_statsd props) statsd_port) ''8125'')
                else env)
             (containers task)
       \<and> (\<exists>a. findContainer ''datadog-agent'' (taskAfter (addDatadogToFargateTask task props)) = Some a
              \<and> environment a ''DD_TRACE_ENABLED'' = None
              \<and> environment a ''DD_AGENT_HOST'' = None
              \<and> environment a ''DD_TRACE_AGENT_PORT'' = None)"
proof -
  have p: "apmPropagates props"
    using assms(2,3) by (simp add: apmPropagates_def)
  have env: "environment (siblingEnvVars props c) =
      (let env = (environment c)
               (''DD_TRACE_ENABLED'' \<mapsto> ''true'',
                ''DD_AGENT_HOST'' \<mapsto> ''localhost'',
                ''DD_TRACE_AGENT_PORT'' \<mapsto>
                   (case Option.bind (agent_apm props) apm_port of
                      None \<Rightarrow> ''8126'' | Some p \<Rightarrow> String_number p))
             in if statsdPropagates props
                then env
                  (orElse (Option.bind (agent_statsd_vars props) statsdHostEnvVarName) ''STATSD_HOST''
                     \<mapsto> ''localhost'',
                   orElse (Option.bind (agent_statsd_vars props) statsdPortEnvVarName) ''STATSD_PORT''
                     \<mapsto> portString (Option.bind (agent_statsd props) statsd_port) ''8125'')
                else env)" for c
    using p assms(4,5,6)
    by (simp add: siblingEnvVars_def Let_def apmEnvVars_def statsdEnvVars_def addEnvironment_def
        orElse_def portString_def)
  have ag: "environment (agentContainer props) = agentEnvironment props"
    by (simp add: agentContainer_def newContainer_def agentContainerOptions_def)
  show ?thesis
    using siblings_after [OF assms(1,8,7)] agent_container_after [OF assms(1,8)]
    by (simp add: env ag agentEnvironment_no_trace_vars)
qed

theorem C1_apm_env_propagation_witness:
  "truthy_bool (Option.bind (agent apmPortProps) agent_enabled)
   \<and> truthy_bool (Option.bind (agent_apm apmPortProps) apm_enabled)
   \<and> Option.bind (agent_apm_vars apmPortProps) apm_doNotSet \<noteq> Some True
   \<and> distinct (containerNamesOf appTask)
   \<and> ''datadog-agent'' \<notin> set (containerNamesOf appTask)
   \<and> take 1 (containerNamesOf (taskAfter (addDatadogToFargateTask appTask apmPortProps))) = [''app'']
   \<and> take 1 (map environment (containers (taskAfter (addDatadogToFargateTask appTask apmPortProps))))
     = [[''MODE'' \<mapsto> ''prod'', ''DD_TRACE_ENABLED'' \<mapsto> ''true'',
         ''DD_AGENT_HOST'' \<mapsto> ''localhost'', ''DD_TRACE_AGENT_PORT'' \<mapsto> ''9126'']]
   \<and> (\<exists>a. findContainer ''datadog-agent'' (taskAfter (addDatadogToFargateTask appTask apmPortProps))
            = Some a
          \<and> environment a ''DD_TRACE_ENABLED'' = None
          \<and> environment a ''DD_AGENT_HOST'' = None
          \<and> environment a ''DD_TRACE_AGENT_PORT'' = None)"
proof -
  have h: "truthy_bool (Option.bind (agent apmPortProps) agent_enabled)"
    "truthy_bool (Option.bind (agent_apm apmPortProps) apm_enabled)"
    "Option.bind (agent_apm_vars apmPortProps) apm_doNotSet \<noteq> Some True"
    "Option.bind (agent_apm_vars apmPortProps) apmTraceEnabledEnvVarName = None"
    "Option.bind (agent_apm_vars apmPortProps) apmHostEnvVarName = None"
    "Option.bind (agent_apm_vars apmPortProps) apmPortEnvVarName = None"
    "distinct (containerNamesOf appTask)"
    "''datadog-agent'' \<notin> set (containerNamesOf appTask)"
    by (simp_all add: apmPortProps_def example_defs chain_defs containerNamesOf_def)
  have v: "\<not> statsdPropagates apmPortProps"
    "Option.bind (agent_apm apmPortProps) apm_port = Some 9126"
    "String_number 9126 = ''9126''"
    "containers appTask = [appContainer]" "environment appContainer = [''MODE'' \<mapsto> ''prod'']"
    "containerNamesOf appTask = [''app'']"
    by (simp_all add: apmPortProps_def example_defs chain_defs statsdPropagates_def
        String_number_def String_nat.simps digit_def containerNamesOf_def)
  from C1_apm_env_propagation [OF h] h show ?thesis
    by (simp add: v)
qed

text \<open>
  The claim as written fails when \<open>agent.enabled\<close> is unset: with
  \<open>agent.apm.enabled\<close> true and no \<open>doNotSet\<close>, the call returns the task unchanged and
  the container \<open>app\<close> has no \<open>DD_TRACE_ENABLED\<close>.
\<close>

theorem C1_agent_disabled_counterexample:
  "truthy_bool (Option.bind (agent_apm apmWithoutAgentProps) apm_enabled)
   \<and> Option.bind (agent_apm_vars apmWithoutAgentProps) apm_doNotSet = None
   \<and> addDatadogToFargateTask appTask apmWithoutAgentProps = Inr appTask
   \<and> containers appTask = [appContainer]
   \<and> environment appContainer ''DD_TRACE_ENABLED'' = None"
  by (simp add: addDatadogToFargateTask_def injectDatadog_def apmWithoutAgentProps_def
      example_defs chain_defs)

subsection \<open>Suppressed propagation\<close>

text \<open>A loop whose body rewrites the environment by \<open>W\<close>, with \<open>W\<close> idempotent,
  leaves every environment as it was or as \<open>W\<close> makes it, also when names repeat.\<close>

lemma store_environment_rel:
  assumes "find (\<lambda>c. containerName c = n) cs = Some c"
    and "list_all2 P es (map environment cs)"
    and "\<And>e. P e (environment c) \<Longrightarrow> P e (environment c')"
  shows "list_all2 P es (map environment (store n c' cs))"
  using assms(1,2)
proof (induction cs arbitrary: es)
  case Nil
  then show ?case by simp
next
  case (Cons a cs)
  then obtain e es' where es: "es = e # es'" by (cases es) auto
  show ?case
  proof (cases "containerName a = n")
    case True
    with Cons.prems have "a = c" by simp
    with True Cons.prems es assms(3) show ?thesis by simp
  next
    case False
    with Cons es show ?thesis by simp
  qed
qed

lemma forEachFound_environment_rel:
  assumes W: "\<And>c. environment (body c) = W (environment c)"
    and idem: "\<And>e. W (W e) = W e"
  shows "list_all2 (\<lambda>e e'. e' = e \<or> e' = W e) es (map environment (containers task)) \<Longrightarrow>
         list_all2 (\<lambda>e e'. e' = e \<or> e' = W e) es
           (map environment (containers (forEachFound body ns task)))"
proof (induction ns arbitrary: task)
  case Nil
  then show ?case by simp
next
  case (Cons n ns)
  show ?case
  proof (cases "findContainer n task")
    case None
    with Cons show ?thesis by simp
  next
    case (Some c)
    have "list_all2 (\<lambda>e e'. e' = e \<or> e' = W e) es
        (map environment (store n (body c) (containers task)))"
      using Some Cons.prems W idem
      by (intro store_environment_rel [of n _ c]) (auto simp: findContainer_def)
    with Some Cons.IH show ?thesis by simp
  qed
qed

lemma statsdEnvVars_environment:
  "environment (statsdEnvVars props c) =
     (environment c)
       (orElse (Option.bind (agent_statsd_vars props) statsdHostEnvVarName) ''STATSD_HOST''
          \<mapsto> ''localhost'',
        orElse (Option.bind (agent_statsd_vars props) statsdPortEnvVarName) ''STATSD_PORT''
          \<mapsto> portString (Option.bind (agent_statsd props) statsd_port) ''8125'')"
  by (simp add: statsdEnvVars_def addEnvironment_def)

lemma apmEnvVars_environment:
  "environment (apmEnvVars props c) =
     (environment c)
       (orElse (Option.bind (agent_apm_vars props) apmTraceEnabledEnvVarName) ''DD_TRACE_ENABLED''
          \<mapsto> ''true'',
        orElse (Option.bind (agent_apm_vars props) apmHostEnvVarName) ''DD_AGENT_HOST''
          \<mapsto> ''localhost'',
        orElse (Option.bind (agent_apm_vars props) apmPortEnvVarName) ''DD_TRACE_AGENT_PORT''
          \<mapsto> portString (Option.bind (agent_apm props) apm_port) ''8126'')"
  by (simp add: apmEnvVars_def addEnvironment_def)

lemma upd2_idem: "(m(a \<mapsto> x, b \<mapsto> y))(a \<mapsto> x, b \<mapsto> y) = m(a \<mapsto> x, b \<mapsto> y)"
  by (auto simp: fun_eq_iff)

lemma upd3_idem:
  "(m(a \<mapsto> x, b \<mapsto> y, c \<mapsto> z))(a \<mapsto> x, b \<mapsto> y, c \<mapsto> z) = m(a \<mapsto> x, b \<mapsto> y, c \<mapsto> z)"
  by (auto simp: fun_eq_iff)

lemma addAgent_environments:
  assumes "''datadog-agent'' \<notin> set (containerNamesOf task)"
  obtains t where "addAgent ns task props = Inr t"
    and "length (containers t) = Suc (length (containers task))"
    and "\<not> apmPropagates props \<Longrightarrow>
         list_all2 (\<lambda>c e'. e' = environment c \<or> e' = environment (statsdEnvVars props c))
           (containers task) (take (length (containers task)) (map environment (containers t)))"
    and "\<not> statsdPropagates props \<Longrightarrow>
         list_all2 (\<lambda>c e'. e' = environment c \<or> e' = environment (apmEnvVars props c))
           (containers task) (take (length (containers task)) (map environment (containers t)))"
    and "\<not> apmPropagates props \<Longrightarrow> \<not> statsdPropagates props \<Longrightarrow>
         take (length (containers task)) (map environment (containers t))
           = map environment (containers task)"
proof -
  let ?cs = "containers task"
  let ?t1 = "task\<lparr>containers := ?cs @ [agentContainer props]\<rparr>"
  let ?Ws = "\<lambda>e. environment (statsdEnvVars props \<lparr>containerName = [], c_image = otherImage 0,
      memoryLimitMiB = None, cpu = None, environment = e, secrets = Map.empty,
      logDriverConfig = None, firelensConfig = None\<rparr>)"
  let ?Wa = "\<lambda>e. environment (apmEnvVars props \<lparr>containerName = [], c_image = otherImage 0,
      memoryLimitMiB = None, cpu = None, environment = e, secrets = Map.empty,
      logDriverConfig = None, firelensConfig = None\<rparr>)"
  obtain t where t: "addAgent ns task props = Inr t"
    and nm: "containerNamesOf t = containerNamesOf task @ [''datadog-agent'']"
    using addAgent_names [OF assms, of ns props] by blast
  have len: "length (containers t) = Suc (length ?cs)"
    using arg_cong [OF nm, of length] by (simp add: containerNamesOf_def)
  have t_eq: "t = (let t2 = (if apmPropagates props
                        then forEachFound (apmEnvVars props) ns ?t1 else ?t1);
               t3 = (if statsdPropagates props
                        then forEachFound (statsdEnvVars props) ns t2 else t2)
           in t3)"
    using t assms by (auto simp add: addAgent_def addContainer_def agentContainer_def Let_def)
  have refl: "list_all2 (\<lambda>e e'. e' = e \<or> e' = W e) (map environment (containers ?t1))
      (map environment (containers ?t1))" for W :: "(string \<rightharpoonup> string) \<Rightarrow> (string \<rightharpoonup> string)"
    by (simp add: list_all2_same)
  have s: "list_all2 (\<lambda>c e'. e' = environment c \<or> e' = environment (statsdEnvVars props c))
           ?cs (take (length ?cs) (map environment (containers t)))" if "\<not> apmPropagates props"
  proof -
    have "list_all2 (\<lambda>e e'. e' = e \<or> e' = ?Ws e) (map environment (containers ?t1))
        (map environment (containers t))"
      using that refl [of ?Ws]
        forEachFound_environment_rel [of "statsdEnvVars props" ?Ws
          "map environment (containers ?t1)" ?t1 ns]
      by (simp add: t_eq Let_def statsdEnvVars_environment upd2_idem)
    then have "list_all2 (\<lambda>e e'. e' = e \<or> e' = ?Ws e)
        (take (length ?cs) (map environment (containers ?t1)))
        (take (length ?cs) (map environment (containers t)))"
      by (rule list_all2_takeI)
    then show ?thesis
      by (simp add: list_all2_map1 statsdEnvVars_environment)
  qed
  have a: "list_all2 (\<lambda>c e'. e' = environment c \<or> e' = environment (apmEnvVars props c))
           ?cs (take (length ?cs) (map environment (containers t)))" if "\<not> statsdPropagates props"
  proof -
    have "list_all2 (\<lambda>e e'. e' = e \<or> e' = ?Wa e) (map environment (containers ?t1))
        (map environment (containers t))"
      using that refl [of ?Wa]
        forEachFound_environment_rel [of "apmEnvVars props" ?Wa
          "map environment (containers ?t1)" ?t1 ns]
      by (simp add: t_eq Let_def apmEnvVars_environment upd3_idem)
    then have "list_all2 (\<lambda>e e'. e' = e \<or> e' = ?Wa e)
        (take (length ?cs) (map environment (containers ?t1)))
        (take (length ?cs) (map environment (containers t)))"
      by (rule list_all2_takeI)
    then show ?thesis
      by (simp add: list_all2_map1 apmEnvVars_environment)
  qed
  have n: "take (length ?cs) (map environment (containers t)) = map environment ?cs"
    if "\<not> apmPropagates props" "\<not> statsdPropagates props"
    using that by (simp add: t_eq Let_def)
  show ?thesis using that [OF t len s a n] by blast
qed

lemma environments_after_call:
  obtains (unchanged)
    "take (length (containers task))
       (map environment (containers (taskAfter (addDatadogToFargateTask task props))))
     = map environment (containers task)"
  | (agent) t where "addAgent (containerNamesOf task) task props = Inr t"
    and "''datadog-agent'' \<notin> set (containerNamesOf task)"
    and "take (length (containers task))
       (map environment (containers (taskAfter (addDatadogToFargateTask task props))))
     = take (length (containers task)) (map environment (containers t))"
proof (cases "truthy_bool (Option.bind (agent props) agent_enabled)
    \<and> ''datadog-agent'' \<notin> set (containerNamesOf task)")
  case False
  then have "take (length (containers task))
       (map environment (containers (taskAfter (addDatadogToFargateTask task props))))
     = map environment (containers task)"
    using addFirelens_environment [of task "containerNamesOf task" props]
    by (auto simp: addDatadogToFargateTask_def taskAfter_injectDatadog addAgent_duplicate)
  then show ?thesis by (rule unchanged)
next
  case True
  then obtain t where t: "addAgent (containerNamesOf task) task props = Inr t"
    and len: "length (containers t) = Suc (length (containers task))"
    using addAgent_environments [of task "containerNamesOf task" props] by blast
  have "take (length (containers task))
      (take (length (containers t))
        (map environment (containers (taskAfter (addFirelens (containerNamesOf task) t props)))))
      = take (length (containers task)) (map environment (containers t))"
    unfolding addFirelens_environment ..
  then have "take (length (containers task))
       (map environment (containers (taskAfter (addDatadogToFargateTask task props))))
     = take (length (containers task)) (map environment (containers t))"
    using True t len by (simp add: addDatadogToFargateTask_def taskAfter_injectDatadog min_def)
  with t True show ?thesis by (intro agent) simp_all
qed

text \<open>
  C6. When \<open>agent.apm.applicationEnvVars.doNotSet\<close> is true, the environment of each
  container present before the call is afterwards what it was, or what it was with the
  two StatsD writes alone, whatever \<open>apm.enabled\<close> is. When
  \<open>agent.statsd.applicationEnvVars.doNotSet\<close> is true, it is what it was, or what it
  was with the three APM writes alone, whatever \<open>statsd.enabled\<close> is. When both are
  true, every such environment is unchanged.
\<close>

theorem C6_doNotSet_suppresses_propagation:
  "(Option.bind (agent_apm_vars props) apm_doNotSet = Some True \<longrightarrow>
      list_all2
        (\<lambda>c env'. env' = environment c
           \<or> env' = (environment c)
               (orElse (Option.bind (agent_statsd_vars props) statsdHostEnvVarName) ''STATSD_HOST''
                  \<mapsto> ''localhost'',
                orElse (Option.bind (agent_statsd_vars props) statsdPortEnvVarName) ''STATSD_PORT''
                  \<mapsto> portString (Option.bind (agent_statsd props) statsd_port) ''8125''))
        (containers task)
        (take (length (containers task))
           (map environment (containers (taskAfter (addDatadogToFargateTask task props))))))
   \<and> (Option.bind (agent_statsd_vars props) statsd_doNotSet = Some True \<longrightarrow>
      list_all2
        (\<lambda>c env'. env' = environment c
           \<or> env' = (environment c)
               (orElse (Option.bind (agent_apm_vars props) apmTraceEnabledEnvVarName) ''DD_TRACE_ENABLED''
                  \<mapsto> ''true'',
                orElse (Option.bind (agent_apm_vars props) apmHostEnvVarName) ''DD_AGENT_HOST''
                  \<mapsto> ''localhost'',
                orElse (Option.bind (agent_apm_vars props) apmPortEnvVarName) ''DD_TRACE_AGENT_PORT''
                  \<mapsto> portString (Option.bind (agent_apm props) apm_port) ''8126''))
        (containers task)
        (take (length (containers task))
           (map environment (containers (taskAfter (addDatadogToFargateTask task props))))))
   \<and> (Option.bind (agent_apm_vars props) apm_doNotSet = Some True
      \<and> Option.bind (agent_statsd_vars props) statsd_doNotSet = Some True \<longrightarrow>
      take (length (containers task))
        (map environment (containers (taskAfter (addDatadogToFargateTask task props))))
      = map environment (containers task))"
proof (rule environments_after_call [of task props], goal_cases)
  case unchanged: 1
  then show ?thesis by (simp add: list_all2_map2 list_all2_same)
next
  case agent: (2 t)
  have "\<not> apmPropagates props" if "Option.bind (agent_apm_vars props) apm_doNotSet = Some True"
    using that by (simp add: apmPropagates_def)
  moreover have "\<not> statsdPropagates props"
    if "Option.bind (agent_statsd_vars props) statsd_doNotSet = Some True"
    using that by (simp add: statsdPropagates_def)
  ultimately show ?thesis
    using agent(1,3) addAgent_environments [OF agent(2), of "containerNamesOf task" props]
    by (auto simp: statsdEnvVars_environment apmEnvVars_environment)
qed

theorem C6_doNotSet_suppresses_propagation_witness:
  "truthy_bool (Option.bind (agent doNotSetProps) agent_enabled)
   \<and> truthy_bool (Option.bind (agent_apm doNotSetProps) apm_enabled)
   \<and> truthy_bool (Option.bind (agent_statsd doNotSetProps) statsd_enabled)
   \<and> Option.bind (agent_apm_vars doNotSetProps) apm_doNotSet = Some True
   \<and> Option.bind (agent_statsd_vars doNotSetProps) statsd_doNotSet = Some True
   \<and> take 1 (map environment (containers (taskAfter (addDatadogToFargateTask appTask doNotSetProps))))
     = [[''MODE'' \<mapsto> ''prod'']]"
proof -
  have h: "Option.bind (agent_apm_vars doNotSetProps) apm_doNotSet = Some True"
    "Option.bind (agent_statsd_vars doNotSetProps) statsd_doNotSet = Some True"
    "truthy_bool (Option.bind (agent doNotSetProps) agent_enabled)"
    "truthy_bool (Option.bind (agent_apm doNotSetProps) apm_enabled)"
    "truthy_bool (Option.bind (agent_statsd doNotSetProps) statsd_enabled)"
    by (simp_all add: doNotSetProps_def example_defs chain_defs)
  have v: "containers appTask = [appContainer]" "environment appContainer = [''MODE'' \<mapsto> ''prod'']"
    by (simp_all add: example_defs)
  from C6_doNotSet_suppresses_propagation [of doNotSetProps appTask] h show ?thesis
    by (simp add: v)
qed

subsection \<open>The Firelens log driver\<close>

lemma addFirelens_returns:
  assumes "addFirelens ns t props = Inr t'"
  shows "''log_router'' \<notin> set (containerNamesOf t)"
    and "bindLogDriver (firelensLogDriver props) ns
           (t\<lparr>containers := containers t @ [newContainer ''log_router'' (logRouterOptions props)]\<rparr>)
         = Inr t'"
  using assms
  by (auto simp: addFirelens_def addFirelensLogRouter_def addContainer_def split: if_splits)

lemma addFirelens_binds:
  assumes r: "addFirelens (map containerName cs) t props = Inr t'"
    and t: "containers t = cs @ extra"
    and d: "distinct (containerNamesOf t)"
  shows "take (length cs) (containers t')
         = map (\<lambda>c. c\<lparr>logDriverConfig := Some (firelensLogDriver props)\<rparr>) cs"
proof -
  let ?r = "newContainer ''log_router'' (logRouterOptions props)"
  let ?t1 = "t\<lparr>containers := containers t @ [?r]\<rparr>"
  let ?ns = "map containerName cs"
  have d1: "distinct (containerNamesOf ?t1)"
    using d addFirelens_returns(1) [OF r] by (simp add: containerNamesOf_def newContainer_def)
  have dn: "distinct ?ns" and sub: "set ?ns \<subseteq> set (containerNamesOf ?t1)"
    using d t by (auto simp: containerNamesOf_def)
  have "Inr t' = Inr (?t1\<lparr>containers :=
            map (\<lambda>c. if containerName c \<in> set ?ns
                     then c\<lparr>logDriverConfig := Some (firelensLogDriver props)\<rparr> else c)
              (containers ?t1)\<rparr>)"
    using bindLogDriver_distinct [OF d1 dn sub, of "firelensLogDriver props"]
      addFirelens_returns(2) [OF r] by simp
  then have "containers t' =
      map (\<lambda>c. if containerName c \<in> set ?ns
                     then c\<lparr>logDriverConfig := Some (firelensLogDriver props)\<rparr> else c)
        (cs @ extra @ [?r])"
    using t by simp
  then show ?thesis by simp
qed

text \<open>
  C8. With \<open>fireLensLogging.enabled\<close> true and \<open>service\<close> and \<open>source\<close> both
  \<open>myservice\<close>, the options of the Firelens log driver have \<open>dd_service\<close> and
  \<open>dd_source\<close> set to \<open>myservice\<close>, \<open>Host\<close> set to \<open>http-intake.logs.\<close> followed by
  the configured site (\<open>datadoghq.com\<close> when none is configured) and \<open>TLS\<close> set to
  \<open>on\<close>, and have no \<open>dd_tags\<close> when no tag mapping is supplied. When the call returns
  on a task with distinct container names, the driver with these options is the log
  configuration of every container that was present before the call.
\<close>

theorem C8_firelens_options:
  assumes "truthy_bool (Option.bind (fireLensLogging props) fl_enabled)"
    and "Option.bind (fireLensLogging props) fl_service = Some ''myservice''"
    and "Option.bind (fireLensLogging props) fl_source = Some ''myservice''"
  shows "firelensOptions props ''dd_service'' = Some ''myservice''
       \<and> firelensOptions props ''dd_source'' = Some ''myservice''
       \<and> firelensOptions props ''Host''
           = Some (''http-intake.logs.''
               @ (case datadogSite props of None \<Rightarrow> ''datadoghq.com'' | Some site \<Rightarrow> site))
       \<and> firelensOptions props ''TLS'' = Some ''on''
       \<and> (Option.bind (fireLensLogging props) fl_tags = None \<longrightarrow>
            firelensOptions props ''dd_tags'' = None)
       \<and> (distinct (containerNamesOf task) \<and> addDatadogToFargateTask task props = Inr task' \<longrightarrow>
            map logDriverConfig (take (length (containers task)) (containers task'))
            = replicate (length (containers task))
                (Some (firelens (firelensOptions props) [''apikey'' \<mapsto> datadogApiKeySecret props])))"
proof -
  have opts: "firelensOptions props ''dd_service'' = Some ''myservice''
       \<and> firelensOptions props ''dd_source'' = Some ''myservice''
       \<and> firelensOptions props ''Host''
           = Some (''http-intake.logs.''
               @ (case datadogSite props of None \<Rightarrow> ''datadoghq.com'' | Some site \<Rightarrow> site))
       \<and> firelensOptions props ''TLS'' = Some ''on''
       \<and> (Option.bind (fireLensLogging props) fl_tags = None \<longrightarrow>
            firelensOptions props ''dd_tags'' = None)"
    using assms(2,3)
    by (simp add: firelensOptions_def map_add_def truthy_string_def orElse_def split: option.splits)
  have bound: "map logDriverConfig (take (length (containers task)) (containers task'))
            = replicate (length (containers task)) (Some (firelensLogDriver props))"
    if d: "distinct (containerNamesOf task)" and r: "addDatadogToFargateTask task props = Inr task'"
  proof (cases "truthy_bool (Option.bind (agent props) agent_enabled)")
    case False
    with r assms(1) have "addFirelens (map containerName (containers task)) task props = Inr task'"
      by (simp add: addDatadogToFargateTask_def injectDatadog_def containerNamesOf_def)
    from addFirelens_binds [OF this, of "[]"] d show ?thesis
      by (simp add: map_replicate_const comp_def)
  next
    case True
    have nd: "''datadog-agent'' \<notin> set (containerNamesOf task)"
    proof
      assume "''datadog-agent'' \<in> set (containerNamesOf task)"
      with r True show False
        by (simp add: addDatadogToFargateTask_def injectDatadog_def addAgent_duplicate)
    qed
    let ?cs = "map (siblingEnvVars props) (containers task)"
    let ?t = "task\<lparr>containers := ?cs @ [agentContainer props]\<rparr>"
    have sn: "containerName (siblingEnvVars props c) = containerName c" for c
      by (simp add: siblingEnvVars_def Let_def)
    have ns: "map containerName ?cs = containerNamesOf task"
      by (simp add: containerNamesOf_def sn)
    have af: "addFirelens (map containerName ?cs) ?t props = Inr task'"
      using r True assms(1) addAgent_distinct [OF nd d, of props] unfolding ns
      by (simp add: addDatadogToFargateTask_def injectDatadog_def)
    have "containerNamesOf ?t = containerNamesOf task @ [''datadog-agent'']"
      using ns by (simp add: containerNamesOf_def agentContainer_def newContainer_def)
    then have dt: "distinct (containerNamesOf ?t)"
      using d nd by simp
    have "take (length ?cs) (containers task')
         = map (\<lambda>c. c\<lparr>logDriverConfig := Some (firelensLogDriver props)\<rparr>) ?cs"
      using addFirelens_binds [OF af _ dt, of "[agentContainer props]"] by simp
    then show ?thesis by (simp add: map_replicate_const comp_def)
  qed
  show ?thesis using opts bound by (simp add: firelensLogDriver_def)
qed

theorem C8_firelens_options_witness:
  "truthy_bool (Option.bind (fireLensLogging myserviceProps) fl_enabled)
   \<and> distinct (containerNamesOf appTask)
   \<and> addDatadogToFargateTask appTask myserviceProps = Inr routedTask
   \<and> firelensOptions myserviceProps ''dd_service'' = Some ''myservice''
   \<and> firelensOptions myserviceProps ''dd_source'' = Some ''myservice''
   \<and> firelensOptions myserviceProps ''Host'' = Some ''http-intake.logs.datadoghq.com''
   \<and> firelensOptions myserviceProps ''TLS'' = Some ''on''
   \<and> firelensOptions myserviceProps ''dd_tags'' = None
   \<and> map logDriverConfig (take 1 (containers routedTask))
     = [Some (firelens (firelensOptions myserviceProps) [''apikey'' \<mapsto> Secret 0])]"
proof -
  have h: "truthy_bool (Option.bind (fireLensLogging myserviceProps) fl_enabled)"
    "Option.bind (fireLensLogging myserviceProps) fl_service = Some ''myservice''"
    "Option.bind (fireLensLogging myserviceProps) fl_source = Some ''myservice''"
    by (simp_all add: myserviceProps_def example_defs chain_defs)
  have v: "Option.bind (fireLensLogging myserviceProps) fl_tags = None"
    "datadogSite myserviceProps = None" "datadogApiKeySecret myserviceProps = Secret 0"
    "length (containers appTask) = 1" "distinct (containerNamesOf appTask)"
    by (simp_all add: myserviceProps_def example_defs containerNamesOf_def)
  have e: "addDatadogToFargateTask appTask myserviceProps = Inr routedTask"
    by (simp add: addDatadogToFargateTask_def injectDatadog_def addFirelens_def
        addFirelensLogRouter_def addContainer_def containerNamesOf_def findContainer_def
        routedTask_def myserviceProps_def example_defs chain_defs)
  from C8_firelens_options [OF h, of appTask routedTask] h(1) e show ?thesis
    by (simp add: v)
qed

end
